theory Spec2Isabelle
  imports Main "HOL-Library.Sublist"
begin

section \<open>Data model (src/types/core.ts, src/questions/options/common.ts)\<close>

text \<open>
  The option lists of \<^verbatim>\<open>common.ts\<close> are closed sets of string values; each becomes a
  datatype. An optional field \<^verbatim>\<open>f?: T\<close> is a \<open>T option\<close>, with \<open>None\<close> for
  \<^verbatim>\<open>undefined\<close>.
\<close>

datatype Language = Typescript | Javascript

datatype PkgManager = Pnpm | Yarn | Npm | Bun

datatype CodeQualityTools = Eslint | EslintPrettier | Biome | NoTools

datatype ProjectType = Node | React | Vue

text \<open>
  \<^verbatim>\<open>Config\<close> is an intersection of the common fields with a union keyed by
  \<^verbatim>\<open>projectType\<close>. At run time it is one object, so it is one record here. The
  declarations of \<^verbatim>\<open>ReactProjectConfig\<close> (\<^verbatim>\<open>./project-configs\<close>) are not among the
  sources: the four fields the generator reads from it are kept as the strings the code
  compares them with.
\<close>

record Config =
  targetDir :: "string option"
  removeExistFolder :: "bool option"
  git :: "bool option"
  installDeps :: "bool option"
  language :: "Language option"
  pkgManager :: "PkgManager option"
  codeQualityTools :: "CodeQualityTools option"
  codeQualityConfig :: "bool option"
  projectType :: "ProjectType option"
  buildTool :: "string option"
  cssFramework :: "string option"
  cssPreprocessor :: "string option"
  routingLibrary :: "string option"

datatype ModuleType = Module | Commonjs

text \<open>
  \<^verbatim>\<open>PackageJsonConfig\<close>. The fields \<^verbatim>\<open>files\<close> and \<^verbatim>\<open>keywords\<close> are named
  \<open>pkgFiles\<close> and \<open>pkgKeywords\<close> (the first would clash with the file map of the
  context); the index signature \<^verbatim>\<open>[key: string]: any\<close> is the map \<open>extra\<close>.
\<close>

record PackageJsonConfig =
  name :: string
  version :: string
  description :: "string option"
  type :: "ModuleType option"
  main :: "string option"
  module :: "string option"
  types :: "string option"
  scripts :: "(string \<rightharpoonup> string) option"
  dependencies :: "(string \<rightharpoonup> string) option"
  devDependencies :: "(string \<rightharpoonup> string) option"
  peerDependencies :: "(string \<rightharpoonup> string) option"
  pkgFiles :: "string list option"
  pkgKeywords :: "string list option"
  author :: "string option"
  license :: "string option"
  engines :: "(string \<rightharpoonup> string) option"
  exports :: "(string \<rightharpoonup> string) option"
  extra :: "string \<rightharpoonup> string"

text \<open>
  \<^verbatim>\<open>ProjectContext\<close>. The classes \<^verbatim>\<open>ViteConfigEditor\<close> and \<^verbatim>\<open>MainEditor\<close>
  (\<^verbatim>\<open>@/editor\<close>) are not among the sources, so the state of an editor is a type
  parameter: \<open>'v\<close> for the build-tool configuration editor, \<open>'m\<close> for the main-entry
  editor.
\<close>

record ('v, 'm) ProjectContext =
  config :: Config
  projectDir :: string
  cwd :: string
  packageJson :: PackageJsonConfig
  files :: "string \<rightharpoonup> string"
  fileExtension :: string
  viteConfigEditor :: "'v option"
  mainEditor :: "'m option"

text \<open>
  The methods of the two editor classes that the generator calls, each as a function
  from the target key and the fragment to a change of the editor's state.
\<close>

record ('v, 'm) EditorMethods =
  viteAddImport :: "string \<Rightarrow> string \<Rightarrow> 'v \<Rightarrow> 'v"
  viteAddVitePlugin :: "string \<Rightarrow> string \<Rightarrow> 'v \<Rightarrow> 'v"
  mainAddImport :: "string \<Rightarrow> string \<Rightarrow> 'm \<Rightarrow> 'm"

section \<open>Errors and outcomes\<close>

text \<open>
  \<^verbatim>\<open>ErrorFactory\<close> and \<^verbatim>\<open>ErrorMessages\<close> are not among the sources. The error
  thrown by \<^verbatim>\<open>ErrorFactory.validation(ErrorMessages.validation.invalidProjectType(v))\<close>
  is kept as that call: \<open>ValidationError (InvalidProjectType v)\<close>. A method call on an
  editor that is \<^verbatim>\<open>undefined\<close> (the \<^verbatim>\<open>!\<close> of the source is erased at run time)
  throws JavaScript's \<open>TypeError\<close>.
\<close>

datatype ErrorMessage = InvalidProjectType "ProjectType option"

datatype error = ValidationError ErrorMessage | TypeError

text \<open>
  A run either returns or throws; in both cases the context is the one the mutations
  made so far have left.
\<close>

datatype 'c outcome = Returned 'c | Thrown error 'c

fun finalContext :: "'c outcome \<Rightarrow> 'c" where
  "finalContext (Returned c) = c"
| "finalContext (Thrown e c) = c"

fun thrownError :: "'c outcome \<Rightarrow> error option" where
  "thrownError (Returned c) = None"
| "thrownError (Thrown e c) = Some e"

text \<open>Statements run in sequence; the first one that throws ends the run.\<close>

fun runSteps :: "('c \<Rightarrow> 'c outcome) list \<Rightarrow> 'c \<Rightarrow> 'c outcome" where
  "runSteps [] c = Returned c"
| "runSteps (s # ss) c = (case s c of Returned c' \<Rightarrow> runSteps ss c' | Thrown e c' \<Rightarrow> Thrown e c')"

section \<open>Template functions (utils/template)\<close>

definition getFileExtension :: "Language \<Rightarrow> string" where
  "getFileExtension l = (if l = Typescript then ''.ts'' else ''.js'')"

definition generateViteEnvFile :: string where
  \<open>generateViteEnvFile =
   ''/// <reference types="vite/client" />\<newline>''\<close>

definition generateGitignore :: string where
  \<open>generateGitignore =
   ''# Logs\<newline>'' @
   ''logs\<newline>'' @
   ''*.log\<newline>'' @
   ''npm-debug.log*\<newline>'' @
   ''yarn-debug.log*\<newline>'' @
   ''yarn-error.log*\<newline>'' @
   ''lerna-debug.log*\<newline>'' @
   ''\<newline>'' @
   ''# Runtime data\<newline>'' @
   ''pids\<newline>'' @
   ''*.pid\<newline>'' @
   ''*.seed\<newline>'' @
   ''*.pid.lock\<newline>'' @
   ''\<newline>'' @
   ''# Directory for instrumented libs generated by jscoverage/JSCover\<newline>'' @
   ''lib-cov\<newline>'' @
   ''\<newline>'' @
   ''# Coverage directory used by tools like istanbul\<newline>'' @
   ''coverage\<newline>'' @
   ''*.lcov\<newline>'' @
   ''\<newline>'' @
   ''# nyc test coverage\<newline>'' @
   ''.nyc_output\<newline>'' @
   ''\<newline>'' @
   ''# Grunt intermediate storage (https://gruntjs.com/creating-plugins#storing-task-files)\<newline>'' @
   ''.grunt\<newline>'' @
   ''\<newline>'' @
   ''# Bower dependency directory (https://bower.io/)\<newline>'' @
   ''bower_components\<newline>'' @
   ''\<newline>'' @
   ''# node-waf configuration\<newline>'' @
   ''.lock-wscript\<newline>'' @
   ''\<newline>'' @
   ''# Compiled binary addons (https://nodejs.org/api/addons.html)\<newline>'' @
   ''build/Release\<newline>'' @
   ''\<newline>'' @
   ''# Dependency directories\<newline>'' @
   ''node_modules/\<newline>'' @
   ''jspm_packages/\<newline>'' @
   ''\<newline>'' @
   ''# Snowpack dependency directory (https://snowpack.dev/)\<newline>'' @
   ''web_modules/\<newline>'' @
   ''\<newline>'' @
   ''# TypeScript cache\<newline>'' @
   ''*.tsbuildinfo\<newline>'' @
   ''\<newline>'' @
   ''# Optional npm cache directory\<newline>'' @
   ''.npm\<newline>'' @
   ''\<newline>'' @
   ''# Optional eslint cache\<newline>'' @
   ''.eslintcache\<newline>'' @
   ''\<newline>'' @
   ''# Microbundle cache\<newline>'' @
   ''.rpt2_cache/\<newline>'' @
   ''.rts2_cache_cjs/\<newline>'' @
   ''.rts2_cache_es/\<newline>'' @
   ''.rts2_cache_umd/\<newline>'' @
   ''\<newline>'' @
   ''# Optional REPL history\<newline>'' @
   ''.node_repl_history\<newline>'' @
   ''\<newline>'' @
   ''# Output of 'npm pack'\<newline>'' @
   ''*.tgz\<newline>'' @
   ''\<newline>'' @
   ''# Yarn Integrity file\<newline>'' @
   ''.yarn-integrity\<newline>'' @
   ''\<newline>'' @
   ''# dotenv environment variables file\<newline>'' @
   ''.env\<newline>'' @
   ''.env.test\<newline>'' @
   ''.env.production\<newline>'' @
   ''\<newline>'' @
   ''# parcel-bundler cache (https://parceljs.org/)\<newline>'' @
   ''.cache\<newline>'' @
   ''.parcel-cache\<newline>'' @
   ''\<newline>'' @
   ''# Next.js build output\<newline>'' @
   ''.next\<newline>'' @
   ''\<newline>'' @
   ''# Nuxt.js build / generate output\<newline>'' @
   ''.nuxt\<newline>'' @
   ''dist\<newline>'' @
   ''\<newline>'' @
   ''# Gatsby files\<newline>'' @
   ''.cache/\<newline>'' @
   ''public\<newline>'' @
   ''\<newline>'' @
   ''# Storybook build outputs\<newline>'' @
   ''.out\<newline>'' @
   ''.storybook-out\<newline>'' @
   ''\<newline>'' @
   ''# Temporary folders\<newline>'' @
   ''tmp/\<newline>'' @
   ''temp/\<newline>'' @
   ''\<newline>'' @
   ''# Runtime data\<newline>'' @
   ''pids\<newline>'' @
   ''*.pid\<newline>'' @
   ''*.seed\<newline>'' @
   ''*.pid.lock\<newline>'' @
   ''\<newline>'' @
   ''# IDE files\<newline>'' @
   ''.vscode/\<newline>'' @
   ''.idea/\<newline>'' @
   ''*.swp\<newline>'' @
   ''*.swo\<newline>'' @
   ''\<newline>'' @
   ''# OS generated files\<newline>'' @
   ''.DS_Store\<newline>'' @
   ''.DS_Store?\<newline>'' @
   ''._*\<newline>'' @
   ''.Spotlight-V100\<newline>'' @
   ''.Trashes\<newline>'' @
   ''ehthumbs.db\<newline>'' @
   ''Thumbs.db\<newline>''\<close>

text \<open>\<^verbatim>\<open>description || `A ${projectType} project`\<close>: the default is used when the
  description is undefined or empty.\<close>

definition generateReadmeTemplate :: "string \<Rightarrow> string \<Rightarrow> string option \<Rightarrow> string" where
  "generateReadmeTemplate projectType' projectName descr =
   ''# '' @ projectName @ ''\<newline>'' @
   ''\<newline>'' @
   (case descr of
      None \<Rightarrow> ''A '' @ projectType' @ '' project''
    | Some d \<Rightarrow> if d = [] then ''A '' @ projectType' @ '' project'' else d) @ ''\<newline>'' @
   ''\<newline>'' @
   ''## License\<newline>'' @
   ''\<newline>'' @
   ''MIT\<newline>''"

definition generateHtmlTemplate :: "string \<Rightarrow> string \<Rightarrow> string" where
  \<open>generateHtmlTemplate title mainScriptPath =
   ''<!doctype html>\<newline>'' @
   ''<html lang="en">\<newline>'' @
   ''  <head>\<newline>'' @
   ''    <meta charset="UTF-8" />\<newline>'' @
   ''    <link rel="icon" type="image/svg+xml" href="/vite.svg" />\<newline>'' @
   ''    <meta name="viewport" content="width=device-width, initial-scale=1.0" />\<newline>'' @
   ''    <title>'' @ title @ ''</title>\<newline>'' @
   ''  </head>\<newline>'' @
   ''  <body>\<newline>'' @
   ''    <div id="app"></div>\<newline>'' @
   ''    <script type="module" src="'' @ mainScriptPath @ ''"></script>\<newline>'' @
   ''  </body>\<newline>'' @
   ''</html>\<newline>''\<close>

definition generateHanaLogo :: string where
  \<open>generateHanaLogo =
   ''<svg xmlns="http://www.w3.org/2000/svg" width="48" height="48" viewBox="0 0 24 24" fill="none" stroke="currentColor" stroke-width="2" stroke-linecap="round" stroke-linejoin="round" class="lucide lucide-flower-icon lucide-flower">\<newline>'' @
   ''  <circle cx="12" cy="12" r="3"/>\<newline>'' @
   ''  <path d="M12 16.5A4.5 4.5 0 1 1 7.5 12 4.5 4.5 0 1 1 12 7.5a4.5 4.5 0 1 1 4.5 4.5 4.5 4.5 0 1 1-4.5 4.5"/>\<newline>'' @
   ''  <path d="M12 7.5V9"/>\<newline>'' @
   ''  <path d="M7.5 12H9"/>\<newline>'' @
   ''  <path d="M16.5 12H15"/>\<newline>'' @
   ''  <path d="M12 16.5V15"/>\<newline>'' @
   ''  <path d="m8 8 1.88 1.88"/>\<newline>'' @
   ''  <path d="M14.12 9.88 16 8"/>\<newline>'' @
   ''  <path d="m8 16 1.88-1.88"/>\<newline>'' @
   ''  <path d="M14.12 14.12 16 16"/>\<newline>'' @
   ''</svg>\<newline>''\<close>

section \<open>The React generator\<close>

definition generateAppFile :: string where
  \<open>generateAppFile =
   ''function App() {\<newline>'' @
   ''  return (\<newline>'' @
   ''    <h1>Hello, vite + react</h1>\<newline>'' @
   ''  )\<newline>'' @
   ''}\<newline>'' @
   ''\<newline>'' @
   ''export default App\<newline>''\<close>

definition generateMainFile :: "string \<Rightarrow> string" where
  \<open>generateMainFile appFileName =
   ''import { createRoot } from 'react-dom/client'\<newline>'' @
   ''import App from './'' @ appFileName @ [CHR 0x27] @ ''\<newline>'' @
   ''\<newline>'' @
   ''createRoot(document.getElementById('root')!).render(<App />)\<newline>''\<close>

definition generateCounterFile :: string where
  \<open>generateCounterFile =
   ''import { useState } from 'react'\<newline>'' @
   ''\<newline>'' @
   ''export function Counter() {\<newline>'' @
   ''  const [count, setCount] = useState(0)\<newline>'' @
   ''\<newline>'' @
   ''  return (\<newline>'' @
   ''    <div>\<newline>'' @
   ''      <h1>\<newline>'' @
   ''        Count:\<newline>'' @
   ''        {count}\<newline>'' @
   ''      </h1>\<newline>'' @
   ''      <button type="button" onClick={() => setCount(count + 1)}>+</button>\<newline>'' @
   ''      <button type="button" onClick={() => setCount(count - 1)}>-</button>\<newline>'' @
   ''    </div>\<newline>'' @
   ''  )\<newline>'' @
   ''}\<newline>''\<close>

definition generateUnoCssConfig :: string where
  \<open>generateUnoCssConfig =
   ''import {\<newline>'' @
   ''    defineConfig,\<newline>'' @
   ''    presetAttributify,\<newline>'' @
   ''    presetIcons,\<newline>'' @
   ''    presetTypography,\<newline>'' @
   ''    presetWebFonts,\<newline>'' @
   ''    presetWind3,\<newline>'' @
   ''    transformerDirectives,\<newline>'' @
   ''    transformerVariantGroup,\<newline>'' @
   ''  } from 'unocss'\<newline>'' @
   ''  \<newline>'' @
   ''  export default defineConfig({\<newline>'' @
   ''    presets: [\<newline>'' @
   ''      /* Core Presets */\<newline>'' @
   ''      presetWind3(),\<newline>'' @
   ''      presetAttributify(),\<newline>'' @
   ''      presetIcons(),\<newline>'' @
   ''      presetTypography(),\<newline>'' @
   ''      presetWebFonts(),\<newline>'' @
   ''    ],\<newline>'' @
   ''    transformers: [transformerDirectives(), transformerVariantGroup()],\<newline>'' @
   ''  })\<newline>'' @
   ''  ''\<close>


subsection \<open>Statements of the generator\<close>

text \<open>
  The single quote, for the string literals of the source that end with one:
  \<open>''import x from 'y'' @ sq\<close> is the string \<^verbatim>\<open>import x from 'y'\<close>.
\<close>

abbreviation sq :: string where
  "sq \<equiv> [CHR 0x27]"

text \<open>JavaScript truthiness of an optional string: defined and not empty.\<close>

definition truthy :: "string option \<Rightarrow> bool" where
  "truthy v = (case v of None \<Rightarrow> False | Some s \<Rightarrow> s \<noteq> [])"

text \<open>\<^verbatim>\<open>a || b\<close> on an optional string \<open>a\<close>.\<close>

definition orElse :: "string option \<Rightarrow> string \<Rightarrow> string" where
  "orElse v d = (case v of None \<Rightarrow> d | Some s \<Rightarrow> if s = [] then d else s)"

definition projectTypeName :: "ProjectType \<Rightarrow> string" where
  "projectTypeName t = (case t of Node \<Rightarrow> ''node'' | React \<Rightarrow> ''react'' | Vue \<Rightarrow> ''vue'')"

text \<open>\<^verbatim>\<open>context.files[path] = content\<close>\<close>

definition setFile ::
  "string \<Rightarrow> string \<Rightarrow> ('v, 'm) ProjectContext \<Rightarrow> ('v, 'm) ProjectContext outcome" where
  "setFile path content ctx = Returned (ctx\<lparr>files := (files ctx)(path \<mapsto> content)\<rparr>)"

text \<open>An assignment to a field of \<^verbatim>\<open>context.packageJson\<close>.\<close>

definition setPackageJson ::
  "(PackageJsonConfig \<Rightarrow> PackageJsonConfig) \<Rightarrow> ('v, 'm) ProjectContext \<Rightarrow> ('v, 'm) ProjectContext outcome" where
  "setPackageJson f ctx = Returned (ctx\<lparr>packageJson := f (packageJson ctx)\<rparr>)"

text \<open>
  \<^verbatim>\<open>packageJson.devDependencies = packageJson.devDependencies || {}\<close> followed by
  \<^verbatim>\<open>packageJson.devDependencies[k] = v\<close>; likewise for \<^verbatim>\<open>dependencies\<close>.
\<close>

definition orEmpty :: "(string \<rightharpoonup> string) option \<Rightarrow> (string \<rightharpoonup> string)" where
  "orEmpty d = (case d of None \<Rightarrow> Map.empty | Some m \<Rightarrow> m)"

definition setDevDependency ::
  "string \<Rightarrow> string \<Rightarrow> ('v, 'm) ProjectContext \<Rightarrow> ('v, 'm) ProjectContext outcome" where
  "setDevDependency k v =
     setPackageJson (\<lambda>p. p\<lparr>devDependencies := Some ((orEmpty (devDependencies p))(k \<mapsto> v))\<rparr>)"

definition setDependency ::
  "string \<Rightarrow> string \<Rightarrow> ('v, 'm) ProjectContext \<Rightarrow> ('v, 'm) ProjectContext outcome" where
  "setDependency k v =
     setPackageJson (\<lambda>p. p\<lparr>dependencies := Some ((orEmpty (dependencies p))(k \<mapsto> v))\<rparr>)"

text \<open>
  \<^verbatim>\<open>context.viteConfigEditor!.method(...)\<close> and \<^verbatim>\<open>context.mainEditor!.method(...)\<close>:
  a \<open>TypeError\<close> when the editor is undefined, the method's change of the editor
  otherwise.
\<close>

definition withViteConfigEditor ::
  "('v \<Rightarrow> 'v) \<Rightarrow> ('v, 'm) ProjectContext \<Rightarrow> ('v, 'm) ProjectContext outcome" where
  "withViteConfigEditor f ctx =
     (case viteConfigEditor ctx of
        None \<Rightarrow> Thrown TypeError ctx
      | Some e \<Rightarrow> Returned (ctx\<lparr>viteConfigEditor := Some (f e)\<rparr>))"

definition withMainEditor ::
  "('m \<Rightarrow> 'm) \<Rightarrow> ('v, 'm) ProjectContext \<Rightarrow> ('v, 'm) ProjectContext outcome" where
  "withMainEditor f ctx =
     (case mainEditor ctx of
        None \<Rightarrow> Thrown TypeError ctx
      | Some e \<Rightarrow> Returned (ctx\<lparr>mainEditor := Some (f e)\<rparr>))"

subsection \<open>Feature generators\<close>

definition generateCssFramework ::
  "('v, 'm) EditorMethods \<Rightarrow> ('v, 'm) ProjectContext \<Rightarrow> ('v, 'm) ProjectContext outcome" where
  \<open>generateCssFramework m ctx =
    (let cfg = config ctx in
     if projectType cfg \<noteq> Some React
     then Thrown (ValidationError (InvalidProjectType (projectType cfg))) ctx
     else if cssFramework cfg = Some ''tailwindcss'' then
       runSteps
        ([setDevDependency ''tailwindcss'' ''^4.1.11''] @
         (if buildTool cfg = Some ''vite'' then
            [setDevDependency ''@tailwindcss/vite'' ''^4.1.11'',
             setFile ''src/styles/global.css'' ''@import "tailwindcss";'',
             withViteConfigEditor
               (viteAddImport m ''viteConfig'' (''import tailwindcss from '@tailwindcss/vite'' @ sq)),
             withViteConfigEditor (viteAddVitePlugin m ''viteConfig'' ''tailwindcss()''),
             withMainEditor (mainAddImport m ''main'' (''import './styles/global.css'' @ sq))]
          else [])) ctx
     else if cssFramework cfg = Some ''unocss'' then
       runSteps
        ([setDevDependency ''unocss'' ''^66.3.3''] @
         (if buildTool cfg = Some ''vite'' then
            [setFile ''uno.config.ts'' generateUnoCssConfig,
             withViteConfigEditor
               (viteAddImport m ''viteConfig'' (''import UnoCSS from 'unocss/vite'' @ sq)),
             withViteConfigEditor (viteAddVitePlugin m ''viteConfig'' ''UnoCSS()''),
             withMainEditor (mainAddImport m ''main'' (''import 'virtual:uno.css'' @ sq))]
          else [])) ctx
     else Returned ctx)\<close>

definition generateCssPreprocessor ::
  "('v, 'm) ProjectContext \<Rightarrow> ('v, 'm) ProjectContext outcome" where
  "generateCssPreprocessor ctx =
    (let cfg = config ctx in
     if projectType cfg \<noteq> Some React
     then Thrown (ValidationError (InvalidProjectType (projectType cfg))) ctx
     else if cssPreprocessor cfg = Some ''less'' then setDevDependency ''less'' ''^4.3.0'' ctx
     else if cssPreprocessor cfg = Some ''scss'' then setDevDependency ''sass'' ''^1.89.2'' ctx
     else Returned ctx)"

definition generateReactRouterIndex :: string where
  \<open>generateReactRouterIndex =
   ''import { createBrowserRouter } from "react-router"\<newline>'' @
   ''\<newline>'' @
   ''const router = createBrowserRouter([\<newline>'' @
   ''  {\<newline>'' @
   ''    path: "/",\<newline>'' @
   ''    element: () => import('./pages/home'),\<newline>'' @
   ''  }\<newline>'' @
   ''])\<newline>''\<close>

definition generateDefaultPage :: string where
  "generateDefaultPage =
   ''export default function Home() {\<newline>'' @
   ''  return <div>This is default page</div>\<newline>'' @
   ''}\<newline>''"

text \<open>Defined in the source, and called from nowhere in it.\<close>

definition generateRoutingLibrary ::
  "('v, 'm) ProjectContext \<Rightarrow> ('v, 'm) ProjectContext outcome" where
  "generateRoutingLibrary ctx =
    (let cfg = config ctx in
     if projectType cfg \<noteq> Some React
     then Thrown (ValidationError (InvalidProjectType (projectType cfg))) ctx
     else if routingLibrary cfg = Some ''react-router'' then
       runSteps
        [setDependency ''react-router'' ''^7.6.3'',
         setFile (''src/router/index'' @ fileExtension ctx @ ''x'') generateReactRouterIndex,
         setFile (''src/pages/home/index'' @ fileExtension ctx @ ''x'') generateDefaultPage] ctx
     else Returned ctx)"

subsection \<open>\<^verbatim>\<open>reactGenerator.generate\<close>\<close>

definition generate ::
  "('v, 'm) EditorMethods \<Rightarrow> ('v, 'm) ProjectContext \<Rightarrow> ('v, 'm) ProjectContext outcome" where
  \<open>generate m ctx =
    (let cfg = config ctx; ext = fileExtension ctx in
     if projectType cfg \<noteq> Some React
     then Thrown (ValidationError (InvalidProjectType (projectType cfg))) ctx
     else
       let projectName = orElse (targetDir cfg) ''hana-project'';
           appFileName = ''src/app'' @ ext @ ''x'';
           mainFileName = ''src/main'' @ ext @ ''x'';
           counterFileName = ''src/components/counter.'' @ ext @ ''x''
       in runSteps
        ((if buildTool cfg = Some ''vite'' then
            [withViteConfigEditor
               (viteAddImport m ''viteConfig'' (''import react from '@vitejs/plugin-react'' @ sq)),
             withViteConfigEditor (viteAddVitePlugin m ''viteConfig'' ''react()'')]
          else []) @
         [setFile appFileName generateAppFile,
          setFile mainFileName (generateMainFile appFileName),
          setFile counterFileName generateCounterFile] @
         (if language cfg = Some Typescript
          then [setFile ''src/vite-env.d.ts'' generateViteEnvFile] else []) @
         [setFile ''public/favicon.svg'' generateHanaLogo,
          setFile ''index.html'' (generateHtmlTemplate ''react project'' (''/'' @ mainFileName)),
          setFile ''README.md''
            (generateReadmeTemplate (projectTypeName React) projectName (Some ''A React project'')),
          setFile ''.gitignore'' generateGitignore,
          setPackageJson (\<lambda>p. p\<lparr>name := projectName\<rparr>),
          setPackageJson (\<lambda>p. p\<lparr>description := Some ''A React project''\<rparr>),
          setPackageJson (\<lambda>p. p\<lparr>version := ''1.0.0''\<rparr>),
          setPackageJson (\<lambda>p. p\<lparr>license := Some ''MIT''\<rparr>),
          setPackageJson (\<lambda>p. p\<lparr>engines := Some [''node'' \<mapsto> ''>=18.12.0'']\<rparr>)] @
         (if truthy (cssFramework cfg) \<and> cssFramework cfg \<noteq> Some ''none''
          then [generateCssFramework m] else []) @
         (if truthy (cssPreprocessor cfg) then [generateCssPreprocessor] else [])) ctx)\<close>

section \<open>\<^verbatim>\<open>renderTemplate\<close> (utils/template)\<close>

text \<open>
  Strings are lists of code units below 256. \<^verbatim>\<open>\s\<close> of a JavaScript regular
  expression matches, among these, tab, line feed, vertical tab, form feed, carriage
  return, space and the no-break space.
\<close>

definition isWhiteSpace :: "char \<Rightarrow> bool" where
  "isWhiteSpace c =
     (c \<in> set [CHR 0x09, CHR 0x0A, CHR 0x0B, CHR 0x0C, CHR 0x0D, CHR 0x20, CHR 0xA0])"

text \<open>
  The key is spliced into the pattern \<^verbatim>\<open>{{\s*KEY\s*}}\<close> as it is, so it is read as a
  regular expression. The model covers the keys that a regular expression reads as
  themselves: no syntax character \<^verbatim>\<open>^ $ \ . * + ? ( ) [ ] { } |\<close> and no white space
  (with white space in the key, \<^verbatim>\<open>\s*\<close> would have to backtrack).
\<close>

definition syntaxCharacter :: "char \<Rightarrow> bool" where
  "syntaxCharacter c = (c \<in> set (''^$.*+?()[]{}|'' @ [CHR 0x5C]))"

definition plainKey :: "string \<Rightarrow> bool" where
  "plainKey key = list_all (\<lambda>c. \<not> syntaxCharacter c \<and> \<not> isWhiteSpace c) key"

text \<open>
  A match of \<^verbatim>\<open>{{\s*KEY\s*}}\<close> at the start of \<open>s\<close>, for a plain key: the matched
  text and the rest of \<open>s\<close>.
\<close>

definition matchPlaceholder :: "string \<Rightarrow> string \<Rightarrow> (string \<times> string) option" where
  "matchPlaceholder key s =
     (if \<not> prefix ''{{'' s then None
      else
        let s1 = dropWhile isWhiteSpace (drop 2 s) in
        if \<not> prefix key s1 then None
        else
          let s2 = dropWhile isWhiteSpace (drop (length key) s1) in
          if \<not> prefix ''}}'' s2 then None
          else let rest = drop 2 s2 in Some (take (length s - length rest) s, rest))"

text \<open>
  \<^verbatim>\<open>String.prototype.replace\<close> with a string as the replacement expands the patterns
  \<^verbatim>\<open>$$\<close>, \<^verbatim>\<open>$&\<close>, \<^verbatim>\<open>$`\<close> and \<^verbatim>\<open>$'\<close> in it (ECMAScript's GetSubstitution). The
  pattern has no capture group, so \<^verbatim>\<open>$1\<close> \<open>\<dots>\<close> \<^verbatim>\<open>$99\<close> and \<^verbatim>\<open>$<\<close> stay as they
  are. The arguments: the matched text, the text before the match (\<open>pre\<close>), the text
  after it (\<open>post\<close>), the replacement.
\<close>

fun getSubstitution :: "string \<Rightarrow> string \<Rightarrow> string \<Rightarrow> string \<Rightarrow> string" where
  "getSubstitution matched pre post [] = []"
| "getSubstitution matched pre post [c] = [c]"
| "getSubstitution matched pre post (c # d # r) =
     (if c = CHR ''$'' then
        (if d = CHR ''$'' then CHR ''$'' # getSubstitution matched pre post r
         else if d = CHR ''&'' then matched @ getSubstitution matched pre post r
         else if d = CHR 0x60 then pre @ getSubstitution matched pre post r
         else if d = CHR 0x27 then post @ getSubstitution matched pre post r
         else c # getSubstitution matched pre post (d # r))
      else c # getSubstitution matched pre post (d # r))"

lemma matchPlaceholder_shorter:
  assumes "matchPlaceholder key s = Some (matched, rest)"
  shows "length rest < length s"
proof -
  from assms have p: "prefix ''{{'' s"
    by (auto simp: matchPlaceholder_def Let_def split: if_splits)
  then have two: "2 \<le> length s"
    by (auto simp: prefix_def)
  from assms have
    "rest = drop 2 (dropWhile isWhiteSpace (drop (length key) (dropWhile isWhiteSpace (drop 2 s))))"
    by (auto simp: matchPlaceholder_def Let_def split: if_splits)
  then have "length rest \<le> length (dropWhile isWhiteSpace (drop (length key) (dropWhile isWhiteSpace (drop 2 s))))"
    by simp
  also have "\<dots> \<le> length (drop (length key) (dropWhile isWhiteSpace (drop 2 s)))"
    by (rule length_dropWhile_le)
  also have "\<dots> \<le> length (dropWhile isWhiteSpace (drop 2 s))"
    by simp
  also have "\<dots> \<le> length (drop 2 s)"
    by (rule length_dropWhile_le)
  also have "\<dots> < length s"
    using two by simp
  finally show ?thesis .
qed

text \<open>
  \<^verbatim>\<open>result.replace(regex, value)\<close> with the flag \<^verbatim>\<open>g\<close>: every match, from left to
  right, the search resuming after each match. \<open>pre\<close> is the text of the string
  already passed.
\<close>

function replacePlaceholders :: "string \<Rightarrow> string \<Rightarrow> string \<Rightarrow> string \<Rightarrow> string" where
  "replacePlaceholders key val pre [] = []"
| "replacePlaceholders key val pre (c # cs) =
     (case matchPlaceholder key (c # cs) of
        Some (matched, rest) \<Rightarrow>
          getSubstitution matched pre rest val @
          replacePlaceholders key val (pre @ matched) rest
      | None \<Rightarrow> c # replacePlaceholders key val (pre @ [c]) cs)"
  by pat_completeness auto
termination
  by (relation "measure (\<lambda>(key, val, pre, s). length s)")
     (auto dest: matchPlaceholder_shorter)

text \<open>
  The outcome of the model of \<^verbatim>\<open>renderTemplate\<close>. \<open>Rendered\<close> carries the string the
  code returns. \<open>NotModelled\<close> is not an outcome of the code: it marks the inputs the
  model does not cover, those with a key that is not plain. For such a key the code
  returns what the regular expression built from the key matches and replaces (the key
  \<^verbatim>\<open>a.c\<close> also matches \<^verbatim>\<open>{{abc}}\<close>), or throws a \<^verbatim>\<open>SyntaxError\<close> when the key is not a
  regular expression (the key \<^verbatim>\<open>(\<close>); the model says nothing about either.
\<close>

datatype rendering = Rendered string | NotModelled

text \<open>
  The loop over \<^verbatim>\<open>Object.entries(variables)\<close>: the variables are the list of the
  entries, in the order the loop visits them.
\<close>

definition renderTemplate :: "string \<Rightarrow> (string \<times> string) list \<Rightarrow> rendering" where
  "renderTemplate template variables =
     (if list_all (\<lambda>(key, val). plainKey key) variables
      then Rendered
        (foldl (\<lambda>result (key, val). replacePlaceholders key val [] result) template variables)
      else NotModelled)"

section \<open>The source-file editor\<close>

text \<open>
  Modelled from the spec: the classes \<^verbatim>\<open>ViteConfigEditor\<close> and \<^verbatim>\<open>MainEditor\<close> are
  missing from the sources. The spec (sections 3 and 4.3) gives an editor a fragment
  store: for each named target two ordered sets of strings, the imports and the
  plugin/registration entries, in insertion order and without exact duplicates.
\<close>

record Fragments =
  importSet :: "string list"
  pluginSet :: "string list"

type_synonym Editor = "string \<Rightarrow> Fragments"

definition emptyEditor :: Editor where
  "emptyEditor = (\<lambda>key. \<lparr>importSet = [], pluginSet = []\<rparr>)"

text \<open>
  Modelled from the spec: \<^verbatim>\<open>addImport\<close> appends the statement to the ordered import set
  of the target if it is not already present (exact string match), and is a no-op
  otherwise.
\<close>

definition addImport :: "string \<Rightarrow> string \<Rightarrow> Editor \<Rightarrow> Editor" where
  "addImport key statement ed =
     (if statement \<in> set (importSet (ed key)) then ed
      else ed(key := (ed key)\<lparr>importSet := importSet (ed key) @ [statement]\<rparr>))"

text \<open>
  Modelled from the spec: \<^verbatim>\<open>addVitePlugin\<close> (the spec's \<^verbatim>\<open>addPlugin\<close>) appends the
  expression to the ordered plugin set under the same rule.
\<close>

definition addVitePlugin :: "string \<Rightarrow> string \<Rightarrow> Editor \<Rightarrow> Editor" where
  "addVitePlugin key expression ed =
     (if expression \<in> set (pluginSet (ed key)) then ed
      else ed(key := (ed key)\<lparr>pluginSet := pluginSet (ed key) @ [expression]\<rparr>))"

text \<open>
  Modelled from the spec: the imports block that \<^verbatim>\<open>render\<close> substitutes into the base
  template holds all accumulated import statements, one per line, in insertion order.
  (The insertion markers of the base template are not named by the spec; the rest of
  \<^verbatim>\<open>render\<close> is not modelled.)
\<close>

definition renderImportsBlock :: "Editor \<Rightarrow> string \<Rightarrow> string" where
  "renderImportsBlock ed key =
     concat (map (\<lambda>statement. statement @ ''\<newline>'') (importSet (ed key)))"

text \<open>The lines of a text, each ended by a line feed (the last one possibly not).\<close>

fun splitLines :: "string \<Rightarrow> string \<Rightarrow> string list" where
  "splitLines cur [] = (if cur = [] then [] else [cur])"
| "splitLines cur (c # cs) =
     (if c = CHR 0x0A then cur # splitLines [] cs else splitLines (cur @ [c]) cs)"

text \<open>The generator run with the editors of the spec.\<close>

definition specEditors :: "(Editor, Editor) EditorMethods" where
  "specEditors =
     \<lparr>viteAddImport = addImport, viteAddVitePlugin = addVitePlugin, mainAddImport = addImport\<rparr>"

section \<open>Contexts the generator is run on\<close>

text \<open>
  The generator calls the editors only when \<^verbatim>\<open>buildTool\<close> is \<^verbatim>\<open>'vite'\<close>. The spec
  (section 4.4) has the orchestrator construct the editors the configuration requires
  before any generator runs; \<open>editorsReady\<close> says that of a context.
\<close>

definition editorsReady :: "('v, 'm) ProjectContext \<Rightarrow> bool" where
  "editorsReady ctx =
     (buildTool (config ctx) = Some ''vite'' \<longrightarrow> viteConfigEditor ctx \<noteq> None \<and> mainEditor ctx \<noteq> None)"

text \<open>
  Two contexts that agree on everything the generator reads to decide what it writes:
  the configuration, the file extension, the file map, the manifest, and which editors
  exist. They may differ in \<open>projectDir\<close>, in \<open>cwd\<close>, and in the state and even the
  type of their editors.
\<close>

definition sameInputs :: "('v, 'm) ProjectContext \<Rightarrow> ('w, 'n) ProjectContext \<Rightarrow> bool" where
  "sameInputs c1 c2 =
     (config c1 = config c2 \<and> fileExtension c1 = fileExtension c2 \<and> files c1 = files c2
      \<and> packageJson c1 = packageJson c2
      \<and> (viteConfigEditor c1 = None) = (viteConfigEditor c2 = None)
      \<and> (mainEditor c1 = None) = (mainEditor c2 = None))"

definition sameOutcome :: "('v, 'm) ProjectContext outcome \<Rightarrow> ('w, 'n) ProjectContext outcome \<Rightarrow> bool" where
  "sameOutcome r1 r2 =
     (thrownError r1 = thrownError r2 \<and> sameInputs (finalContext r1) (finalContext r2))"

definition sameStep ::
  "(('v, 'm) ProjectContext \<Rightarrow> ('v, 'm) ProjectContext outcome) \<Rightarrow>
   (('w, 'n) ProjectContext \<Rightarrow> ('w, 'n) ProjectContext outcome) \<Rightarrow> bool" where
  "sameStep s1 s2 = (\<forall>c1 c2. sameInputs c1 c2 \<longrightarrow> sameOutcome (s1 c1) (s2 c2))"

section \<open>Sample inputs\<close>

definition sampleConfig :: "ProjectType \<Rightarrow> Language \<Rightarrow> string \<Rightarrow> string \<Rightarrow> Config" where
  "sampleConfig pt lang tool css =
     \<lparr>targetDir = None, removeExistFolder = None, git = Some True, installDeps = Some False,
      language = Some lang, pkgManager = Some Pnpm, codeQualityTools = Some Eslint,
      codeQualityConfig = None, projectType = Some pt, buildTool = Some tool,
      cssFramework = Some css, cssPreprocessor = None, routingLibrary = None\<rparr>"

definition samplePackageJson :: PackageJsonConfig where
  "samplePackageJson =
     \<lparr>name = [], version = ''0.0.0'', description = None, type = Some Module, main = None,
      module = None, types = None, scripts = None, dependencies = None,
      devDependencies = None, peerDependencies = None, pkgFiles = None, pkgKeywords = None,
      author = None, license = None, engines = None, exports = None, extra = Map.empty\<rparr>"

definition sampleContext ::
  "Config \<Rightarrow> string \<Rightarrow> 'v option \<Rightarrow> 'm option \<Rightarrow> ('v, 'm) ProjectContext" where
  "sampleContext cfg ext v m =
     \<lparr>config = cfg, projectDir = ''/work/my-app'', cwd = ''/work'',
      packageJson = samplePackageJson, files = Map.empty, fileExtension = ext,
      viteConfigEditor = v, mainEditor = m\<rparr>"

section \<open>Lemmas\<close>

subsection \<open>Running a list of statements\<close>

lemma returned_iff: "thrownError r = None \<longleftrightarrow> r = Returned (finalContext r)"
  by (cases r) simp_all

lemma thrownError_runSteps_Cons:
  "thrownError (runSteps (s # ss) c) =
     (if thrownError (s c) = None then thrownError (runSteps ss (finalContext (s c)))
      else thrownError (s c))"
  by (cases "s c") simp_all

lemma finalContext_runSteps_Cons:
  "finalContext (runSteps (s # ss) c) =
     (if thrownError (s c) = None then finalContext (runSteps ss (finalContext (s c)))
      else finalContext (s c))"
  by (cases "s c") simp_all

lemmas runSteps_obs = thrownError_runSteps_Cons finalContext_runSteps_Cons

lemmas step_defs = setFile_def setPackageJson_def setDevDependency_def withViteConfigEditor_def
  withMainEditor_def

lemmas feature_defs = generateCssFramework_def generateCssPreprocessor_def truthy_def orEmpty_def

subsection \<open>Effects of the feature generators\<close>

lemma cssFramework_returns:
  assumes "projectType (config c) = Some React" and "editorsReady c"
  shows "thrownError (generateCssFramework m c) = None"
proof (cases "buildTool (config c) = Some ''vite''")
  case True
  with assms obtain ve me where "viteConfigEditor c = Some ve" and "mainEditor c = Some me"
    by (auto simp: editorsReady_def)
  with assms True show ?thesis
    by (simp add: generateCssFramework_def Let_def step_defs)
next
  case False
  with assms show ?thesis
    by (simp add: generateCssFramework_def Let_def step_defs)
qed

lemma cssFramework_frame:
  "config (finalContext (generateCssFramework m c)) = config c"
  "fileExtension (finalContext (generateCssFramework m c)) = fileExtension c"
  "projectDir (finalContext (generateCssFramework m c)) = projectDir c"
  "cwd (finalContext (generateCssFramework m c)) = cwd c"
  "(viteConfigEditor (finalContext (generateCssFramework m c)) = None) = (viteConfigEditor c = None)"
  "(mainEditor (finalContext (generateCssFramework m c)) = None) = (mainEditor c = None)"
  by (simp_all add: generateCssFramework_def Let_def step_defs runSteps_obs split: option.splits)

lemma cssFramework_packageJson:
  "packageJson (finalContext (generateCssFramework m c)) =
     (packageJson c)\<lparr>devDependencies := devDependencies (packageJson (finalContext (generateCssFramework m c)))\<rparr>"
  by (simp add: generateCssFramework_def Let_def step_defs runSteps_obs split: option.splits)

lemma cssFramework_files:
  assumes "k \<noteq> ''src/styles/global.css''" and "k \<noteq> ''uno.config.ts''"
  shows "files (finalContext (generateCssFramework m c)) k = files c k"
  using assms
  by (simp add: generateCssFramework_def Let_def step_defs runSteps_obs split: option.splits)

lemma cssPreprocessor_returns:
  assumes "projectType (config c) = Some React"
  shows "thrownError (generateCssPreprocessor c) = None"
  using assms by (simp add: generateCssPreprocessor_def Let_def step_defs)

lemma cssPreprocessor_frame:
  "config (finalContext (generateCssPreprocessor c)) = config c"
  "fileExtension (finalContext (generateCssPreprocessor c)) = fileExtension c"
  "projectDir (finalContext (generateCssPreprocessor c)) = projectDir c"
  "cwd (finalContext (generateCssPreprocessor c)) = cwd c"
  "files (finalContext (generateCssPreprocessor c)) = files c"
  "viteConfigEditor (finalContext (generateCssPreprocessor c)) = viteConfigEditor c"
  "mainEditor (finalContext (generateCssPreprocessor c)) = mainEditor c"
  by (simp_all add: generateCssPreprocessor_def Let_def step_defs)

lemma cssPreprocessor_packageJson:
  "packageJson (finalContext (generateCssPreprocessor c)) =
     (packageJson c)\<lparr>devDependencies := devDependencies (packageJson (finalContext (generateCssPreprocessor c)))\<rparr>"
  by (simp add: generateCssPreprocessor_def Let_def step_defs)

lemma cssPreprocessor_devDependencies:
  assumes "k \<noteq> ''less''" and "k \<noteq> ''sass''"
  shows "orEmpty (devDependencies (packageJson (finalContext (generateCssPreprocessor c)))) k =
         orEmpty (devDependencies (packageJson c)) k"
  using assms by (simp add: generateCssPreprocessor_def Let_def step_defs orEmpty_def)

lemma name_devDependencies_update:
  "p = q\<lparr>devDependencies := d\<rparr> \<Longrightarrow> name p = name q"
  by simp

lemma cssFramework_name:
  "name (packageJson (finalContext (generateCssFramework m c))) = name (packageJson c)"
  by (rule name_devDependencies_update [OF cssFramework_packageJson])

lemma cssPreprocessor_name:
  "name (packageJson (finalContext (generateCssPreprocessor c))) = name (packageJson c)"
  by (rule name_devDependencies_update [OF cssPreprocessor_packageJson])

lemmas feature_obs = cssFramework_frame cssFramework_name cssFramework_files
  cssPreprocessor_frame cssPreprocessor_name cssFramework_returns cssPreprocessor_returns

subsection \<open>Effects of the generator\<close>

lemma ready_cases:
  assumes "editorsReady ctx"
  obtains (vite) ve me where "buildTool (config ctx) = Some ''vite''"
      and "viteConfigEditor ctx = Some ve" and "mainEditor ctx = Some me"
  | (other) "buildTool (config ctx) \<noteq> Some ''vite''"
  using assms by (auto simp: editorsReady_def)

lemmas generate_simps = generate_def Let_def step_defs runSteps_obs feature_obs editorsReady_def

lemma generate_returns:
  assumes "projectType (config ctx) = Some React" and "editorsReady ctx"
  shows "thrownError (generate m ctx) = None"
proof (cases "buildTool (config ctx) = Some ''vite''")
  case True
  with assms obtain ve me where "viteConfigEditor ctx = Some ve" and "mainEditor ctx = Some me"
    by (auto simp: editorsReady_def)
  with assms True show ?thesis
    by (simp add: generate_def Let_def step_defs runSteps_obs feature_obs editorsReady_def del: runSteps.simps(2))
next
  case False
  with assms show ?thesis
    by (simp add: generate_def Let_def step_defs runSteps_obs feature_obs editorsReady_def del: runSteps.simps(2))
qed

lemma generate_name:
  assumes "projectType (config ctx) = Some React" and "editorsReady ctx"
  shows "name (packageJson (finalContext (generate m ctx))) = orElse (targetDir (config ctx)) ''hana-project''"
proof (cases "buildTool (config ctx) = Some ''vite''")
  case True
  with assms obtain ve me where "viteConfigEditor ctx = Some ve" and "mainEditor ctx = Some me"
    by (auto simp: editorsReady_def)
  with assms True show ?thesis
    by (simp add: generate_def Let_def step_defs runSteps_obs feature_obs editorsReady_def del: runSteps.simps(2))
next
  case False
  with assms show ?thesis
    by (simp add: generate_def Let_def step_defs runSteps_obs feature_obs editorsReady_def del: runSteps.simps(2))
qed

lemma generate_readme:
  assumes "projectType (config ctx) = Some React" and "editorsReady ctx"
  shows "files (finalContext (generate m ctx)) ''README.md'' =
     Some (generateReadmeTemplate ''react'' (orElse (targetDir (config ctx)) ''hana-project'') (Some ''A React project''))"
proof (cases "buildTool (config ctx) = Some ''vite''")
  case True
  with assms obtain ve me where "viteConfigEditor ctx = Some ve" and "mainEditor ctx = Some me"
    by (auto simp: editorsReady_def)
  with assms True show ?thesis
    by (simp add: generate_def Let_def step_defs runSteps_obs feature_obs editorsReady_def projectTypeName_def del: runSteps.simps(2))
next
  case False
  with assms show ?thesis
    by (simp add: generate_def Let_def step_defs runSteps_obs feature_obs editorsReady_def projectTypeName_def del: runSteps.simps(2))
qed

lemma generate_files_source:
  assumes "projectType (config ctx) = Some React" and "editorsReady ctx"
  shows "files (finalContext (generate m ctx)) (''src/app'' @ fileExtension ctx @ ''x'') = Some generateAppFile"
    and "files (finalContext (generate m ctx)) (''src/main'' @ fileExtension ctx @ ''x'') =
           Some (generateMainFile (''src/app'' @ fileExtension ctx @ ''x''))"
    and "files (finalContext (generate m ctx)) (''src/components/counter.'' @ fileExtension ctx @ ''x'') =
           Some generateCounterFile"
  using assms(2,1)
  by (cases rule: ready_cases; simp add: generate_simps del: runSteps.simps(2))+


lemma generate_files_other:
  assumes "projectType (config ctx) = Some React" and "editorsReady ctx"
    and "p \<noteq> ''src/app'' @ fileExtension ctx @ ''x''"
    and "p \<noteq> ''src/main'' @ fileExtension ctx @ ''x''"
    and "p \<noteq> ''src/components/counter.'' @ fileExtension ctx @ ''x''"
    and "p \<noteq> ''src/vite-env.d.ts''" and "p \<noteq> ''public/favicon.svg''"
    and "p \<noteq> ''index.html''" and "p \<noteq> ''README.md''" and "p \<noteq> ''.gitignore''"
    and "p \<noteq> ''src/styles/global.css''" and "p \<noteq> ''uno.config.ts''"
  shows "files (finalContext (generate m ctx)) p = files ctx p"
  using assms(2,1,3-)
  by (cases rule: ready_cases; simp add: generate_simps del: runSteps.simps(2))

text \<open>
  The editor calls of a run with the build tool vite, for any implementation of the
  methods: on the build-tool configuration editor the import and the plugin of react,
  then those of the CSS framework; on the main-entry editor the import of the CSS
  framework.
\<close>

lemma tailwind_editor_calls:
  assumes "projectType (config ctx) = Some React"
      and "buildTool (config ctx) = Some ''vite''"
      and "cssFramework (config ctx) = Some ''tailwindcss''"
      and "viteConfigEditor ctx = Some ve" and "mainEditor ctx = Some me"
  shows "viteConfigEditor (finalContext (generate m ctx)) =
           Some (viteAddVitePlugin m ''viteConfig'' ''tailwindcss()''
             (viteAddImport m ''viteConfig'' (''import tailwindcss from '@tailwindcss/vite'' @ sq)
               (viteAddVitePlugin m ''viteConfig'' ''react()''
                 (viteAddImport m ''viteConfig'' (''import react from '@vitejs/plugin-react'' @ sq) ve))))"
    and "mainEditor (finalContext (generate m ctx)) =
           Some (mainAddImport m ''main'' (''import './styles/global.css'' @ sq) me)"
  using assms
  by (simp_all add: generate_def Let_def step_defs feature_defs)

lemma unocss_editor_calls:
  assumes "projectType (config ctx) = Some React"
      and "buildTool (config ctx) = Some ''vite''"
      and "cssFramework (config ctx) = Some ''unocss''"
      and "viteConfigEditor ctx = Some ve" and "mainEditor ctx = Some me"
  shows "viteConfigEditor (finalContext (generate m ctx)) =
           Some (viteAddVitePlugin m ''viteConfig'' ''UnoCSS()''
             (viteAddImport m ''viteConfig'' (''import UnoCSS from 'unocss/vite'' @ sq)
               (viteAddVitePlugin m ''viteConfig'' ''react()''
                 (viteAddImport m ''viteConfig'' (''import react from '@vitejs/plugin-react'' @ sq) ve))))"
    and "mainEditor (finalContext (generate m ctx)) =
           Some (mainAddImport m ''main'' (''import 'virtual:uno.css'' @ sq) me)"
  using assms
  by (simp_all add: generate_def Let_def step_defs feature_defs)

subsection \<open>Two runs on the same inputs\<close>

lemma runSteps_same:
  assumes "list_all2 sameStep ss1 ss2" and "sameInputs c1 c2"
  shows "sameOutcome (runSteps ss1 c1) (runSteps ss2 c2)"
  using assms
proof (induction ss1 ss2 arbitrary: c1 c2 rule: list_all2_induct)
  case Nil
  then show ?case by (simp add: sameOutcome_def)
next
  case (Cons s1 ss1 s2 ss2)
  from Cons.hyps(1) Cons.prems have step: "sameOutcome (s1 c1) (s2 c2)"
    by (simp add: sameStep_def)
  show ?case
  proof (cases "s1 c1")
    case r1: (Returned d1)
    with step obtain d2 where r2: "s2 c2 = Returned d2" and "sameInputs d1 d2"
      by (cases "s2 c2") (auto simp: sameOutcome_def)
    with Cons.IH [of d1 d2] r1 show ?thesis by simp
  next
    case t1: (Thrown e d1)
    with step obtain d2 where "s2 c2 = Thrown e d2" and "sameInputs d1 d2"
      by (cases "s2 c2") (auto simp: sameOutcome_def)
    with t1 show ?thesis by (simp add: sameOutcome_def)
  qed
qed

lemma sameStep_setFile: "sameStep (setFile p v) (setFile p v)"
  by (simp add: sameStep_def sameOutcome_def sameInputs_def setFile_def)

lemma sameStep_setPackageJson: "sameStep (setPackageJson f) (setPackageJson f)"
  by (simp add: sameStep_def sameOutcome_def sameInputs_def setPackageJson_def)

lemma sameStep_setDevDependency: "sameStep (setDevDependency k v) (setDevDependency k v)"
  unfolding setDevDependency_def by (rule sameStep_setPackageJson)

lemma sameStep_withViteConfigEditor: "sameStep (withViteConfigEditor f) (withViteConfigEditor g)"
  by (auto simp: sameStep_def sameOutcome_def sameInputs_def withViteConfigEditor_def
      split: option.splits)

lemma sameStep_withMainEditor: "sameStep (withMainEditor f) (withMainEditor g)"
  by (auto simp: sameStep_def sameOutcome_def sameInputs_def withMainEditor_def
      split: option.splits)

lemmas sameStep_statements = sameStep_setFile sameStep_setPackageJson sameStep_setDevDependency
  sameStep_withViteConfigEditor sameStep_withMainEditor

lemma sameOutcome_Returned: "sameInputs c1 c2 \<Longrightarrow> sameOutcome (Returned c1) (Returned c2)"
  by (simp add: sameOutcome_def)

lemma sameOutcome_Thrown: "sameInputs c1 c2 \<Longrightarrow> sameOutcome (Thrown e c1) (Thrown e c2)"
  by (simp add: sameOutcome_def)

lemma sameStep_generateCssFramework:
  "sameStep (generateCssFramework m1) (generateCssFramework m2)"
  unfolding sameStep_def
proof (intro allI impI)
  fix c1 :: "('a, 'b) ProjectContext" and c2 :: "('c, 'd) ProjectContext"
  assume same: "sameInputs c1 c2"
  then have cfg: "config c2 = config c1"
    by (simp add: sameInputs_def)
  show "sameOutcome (generateCssFramework m1 c1) (generateCssFramework m2 c2)"
    unfolding generateCssFramework_def Let_def cfg
    using same
    by (simp add: runSteps_same sameStep_statements sameOutcome_Returned sameOutcome_Thrown
        del: runSteps.simps(2))
qed

lemma sameStep_generateCssPreprocessor:
  "sameStep generateCssPreprocessor generateCssPreprocessor"
  unfolding sameStep_def
proof (intro allI impI)
  fix c1 :: "('a, 'b) ProjectContext" and c2 :: "('c, 'd) ProjectContext"
  assume same: "sameInputs c1 c2"
  then have cfg: "config c2 = config c1"
    by (simp add: sameInputs_def)
  have dep: "sameOutcome (setDevDependency k v c1) (setDevDependency k v c2)" for k v
    using sameStep_setDevDependency [of k v] same unfolding sameStep_def by blast
  show "sameOutcome (generateCssPreprocessor c1) (generateCssPreprocessor c2)"
    unfolding generateCssPreprocessor_def Let_def cfg
    using same by (simp add: dep sameOutcome_Returned sameOutcome_Thrown)
qed

lemma generate_same:
  assumes same: "sameInputs c1 c2"
  shows "sameOutcome (generate m1 c1) (generate m2 c2)"
proof -
  from same have cfg: "config c2 = config c1" and ext: "fileExtension c2 = fileExtension c1"
    by (simp_all add: sameInputs_def)
  show ?thesis
    unfolding generate_def Let_def cfg ext
    using same
    by (simp add: runSteps_same sameStep_statements sameOutcome_Thrown
        sameStep_generateCssFramework sameStep_generateCssPreprocessor
        del: runSteps.simps(2))
qed

subsection \<open>The editor of the spec\<close>

lemma addImport_member: "statement \<in> set (importSet (addImport key statement ed key))"
  by (simp add: addImport_def)

lemma addImport_keeps_imports:
  "s \<in> set (importSet (ed k)) \<Longrightarrow> s \<in> set (importSet (addImport key statement ed k))"
  by (auto simp: addImport_def)

lemma addImport_pluginSet: "pluginSet (addImport key statement ed k) = pluginSet (ed k)"
  by (simp add: addImport_def)

lemma addVitePlugin_member: "expression \<in> set (pluginSet (addVitePlugin key expression ed key))"
  by (simp add: addVitePlugin_def)

lemma addVitePlugin_keeps_plugins:
  "s \<in> set (pluginSet (ed k)) \<Longrightarrow> s \<in> set (pluginSet (addVitePlugin key expression ed k))"
  by (auto simp: addVitePlugin_def)

lemma addVitePlugin_importSet: "importSet (addVitePlugin key expression ed k) = importSet (ed k)"
  by (simp add: addVitePlugin_def)

lemmas editor_simps = specEditors_def addImport_member addImport_keeps_imports addImport_pluginSet
  addVitePlugin_member addVitePlugin_keeps_plugins addVitePlugin_importSet

lemma addImport_present:
  "statement \<in> set (importSet (ed key)) \<Longrightarrow> addImport key statement ed = ed"
  by (simp add: addImport_def)

lemma addImport_twice:
  "addImport key statement (addImport key statement ed) = addImport key statement ed"
  by (rule addImport_present) (rule addImport_member)

lemma addImport_repeated:
  "0 < N \<Longrightarrow> (addImport key statement ^^ N) ed = addImport key statement ed"
proof (induction N)
  case 0
  then show ?case by simp
next
  case (Suc N)
  then show ?case
    by (cases "N = 0") (simp_all add: addImport_twice)
qed

lemma addImport_distinct:
  "distinct (importSet (ed k)) \<Longrightarrow> distinct (importSet (addImport key statement ed k))"
  by (auto simp: addImport_def)

lemma distinct_count_once:
  "distinct xs \<Longrightarrow> x \<in> set xs \<Longrightarrow> count_list xs x = 1"
  by (induction xs) (auto simp: count_list_0_iff)

lemma splitLines_line:
  "CHR 0x0A \<notin> set x \<Longrightarrow> splitLines cur (x @ CHR 0x0A # rest) = (cur @ x) # splitLines [] rest"
  by (induction x arbitrary: cur) auto

lemma splitLines_block:
  "\<forall>x \<in> set xs. CHR 0x0A \<notin> set x \<Longrightarrow>
     splitLines [] (concat (map (\<lambda>statement. statement @ ''\<newline>'') xs)) = xs"
  by (induction xs) (simp_all add: splitLines_line)

subsection \<open>\<^verbatim>\<open>renderTemplate\<close>\<close>

lemma renderTemplate_no_variables: "renderTemplate t [] = Rendered t"
  by (simp add: renderTemplate_def)

text \<open>
  Every occurrence of the placeholder of a key is replaced, with or without white space
  inside the braces; other placeholders stay.
\<close>

lemma renderTemplate_example:
  "renderTemplate ''Hi {{ name }}, {{name}}! {{other}}'' [(''name'', ''World'')] =
     Rendered ''Hi World, World! {{other}}''"
  by (simp add: renderTemplate_def plainKey_def syntaxCharacter_def isWhiteSpace_def
      matchPlaceholder_def)

text \<open>A replacement without \<^verbatim>\<open>$\<close> is inserted as it is.\<close>

lemma getSubstitution_no_dollar:
  "CHR ''$'' \<notin> set replacement \<Longrightarrow> getSubstitution matched pre post replacement = replacement"
  by (induction matched pre post replacement rule: getSubstitution.induct) auto

section \<open>The claims\<close>

text \<open>
  Claim C1. Take a configuration with \<^verbatim>\<open>projectType\<close> react, \<^verbatim>\<open>language\<close> typescript,
  \<^verbatim>\<open>buildTool\<close> vite and \<^verbatim>\<open>cssFramework\<close> tailwindcss, in a context whose file extension is
  the one of the language and whose two editors exist. The generator returns, and it
  leaves the file map with the keys \<^verbatim>\<open>src/app.tsx\<close>, \<^verbatim>\<open>src/main.tsx\<close>,
  \<^verbatim>\<open>src/vite-env.d.ts\<close> and \<^verbatim>\<open>src/styles/global.css\<close>, the last with exactly the content
  \<^verbatim>\<open>@import "tailwindcss";\<close>; it leaves \<^verbatim>\<open>devDependencies\<close> with \<^verbatim>\<open>tailwindcss\<close> and
  \<^verbatim>\<open>@tailwindcss/vite\<close> at \<^verbatim>\<open>^4.1.11\<close>; and, run with the editors of the spec, it leaves
  the import \<^verbatim>\<open>import tailwindcss from '@tailwindcss/vite'\<close> and the plugin expression
  \<^verbatim>\<open>tailwindcss()\<close> in the fragment store of the target \<^verbatim>\<open>viteConfig\<close>. Whatever
  \<^verbatim>\<open>cssPreprocessor\<close> and \<^verbatim>\<open>targetDir\<close> are, and whatever the context held before.
\<close>

theorem react_typescript_vite_tailwind:
  assumes "projectType (config ctx) = Some React"
      and "language (config ctx) = Some Typescript"
      and "buildTool (config ctx) = Some ''vite''"
      and "cssFramework (config ctx) = Some ''tailwindcss''"
      and "fileExtension ctx = getFileExtension Typescript"
      and "viteConfigEditor ctx = Some ve" and "mainEditor ctx = Some me"
  shows \<open>\<exists>ctx' d e. generate specEditors ctx = Returned ctx'
      \<and> {''src/app.tsx'', ''src/main.tsx'', ''src/vite-env.d.ts'', ''src/styles/global.css''}
            \<subseteq> dom (files ctx')
      \<and> files ctx' ''src/styles/global.css'' = Some ''@import "tailwindcss";''
      \<and> devDependencies (packageJson ctx') = Some d
      \<and> d ''tailwindcss'' = Some ''^4.1.11'' \<and> d ''@tailwindcss/vite'' = Some ''^4.1.11''
      \<and> viteConfigEditor ctx' = Some e
      \<and> ''import tailwindcss from '@tailwindcss/vite'' @ sq \<in> set (importSet (e ''viteConfig''))
      \<and> ''tailwindcss()'' \<in> set (pluginSet (e ''viteConfig''))\<close>
  using assms
  by (simp add: generate_def Let_def step_defs feature_defs getFileExtension_def editor_simps)

text \<open>
  Claim C1, at the sample context for react, typescript, vite and tailwindcss with two
  empty editors.
\<close>

theorem react_typescript_vite_tailwind_witness:
  \<open>cssFramework (config (sampleContext (sampleConfig React Typescript ''vite'' ''tailwindcss'') ''.ts''
       (Some emptyEditor) (Some emptyEditor))) = Some ''tailwindcss''
   \<and> (\<exists>ctx' d e. generate specEditors (sampleContext (sampleConfig React Typescript ''vite'' ''tailwindcss'') ''.ts''
       (Some emptyEditor) (Some emptyEditor)) = Returned ctx'
      \<and> {''src/app.tsx'', ''src/main.tsx'', ''src/vite-env.d.ts'', ''src/styles/global.css''}
            \<subseteq> dom (files ctx')
      \<and> files ctx' ''src/styles/global.css'' = Some ''@import "tailwindcss";''
      \<and> devDependencies (packageJson ctx') = Some d
      \<and> d ''tailwindcss'' = Some ''^4.1.11'' \<and> d ''@tailwindcss/vite'' = Some ''^4.1.11''
      \<and> viteConfigEditor ctx' = Some e
      \<and> ''import tailwindcss from '@tailwindcss/vite'' @ sq \<in> set (importSet (e ''viteConfig''))
      \<and> ''tailwindcss()'' \<in> set (pluginSet (e ''viteConfig'')))\<close>
proof -
  let ?c = "sampleContext (sampleConfig React Typescript ''vite'' ''tailwindcss'') ''.ts''
       (Some emptyEditor) (Some emptyEditor) :: (Editor, Editor) ProjectContext"
  have h1: "projectType (config ?c) = Some React"
    and h2: "language (config ?c) = Some Typescript"
    and h3: "buildTool (config ?c) = Some ''vite''"
    and h4: "cssFramework (config ?c) = Some ''tailwindcss''"
    and h5: "fileExtension ?c = getFileExtension Typescript"
    and h6: "viteConfigEditor ?c = Some emptyEditor"
    and h7: "mainEditor ?c = Some emptyEditor"
    by (simp_all add: sampleContext_def sampleConfig_def getFileExtension_def)
  from react_typescript_vite_tailwind [OF h1 h2 h3 h4 h5 h6 h7] h4 show ?thesis
    by (rule_tac conjI)
qed

text \<open>
  Claim C2. When \<^verbatim>\<open>projectType\<close> is not react (vue, node or undefined), the generator
  throws the validation error built from the offending \<^verbatim>\<open>projectType\<close>, and the context
  at the throw is the context it was given: the file map and the manifest, and every
  other field, are as they were before the call. This holds for every implementation of
  the editor methods.
\<close>

theorem generate_rejects_other_project_type:
  assumes "projectType (config ctx) \<noteq> Some React"
  shows "generate m ctx = Thrown (ValidationError (InvalidProjectType (projectType (config ctx)))) ctx
       \<and> files (finalContext (generate m ctx)) = files ctx
       \<and> packageJson (finalContext (generate m ctx)) = packageJson ctx"
  using assms by (simp add: generate_def)

text \<open>
  Claim C2, at a sample context whose \<^verbatim>\<open>projectType\<close> is vue.
\<close>

theorem generate_rejects_other_project_type_witness:
  "projectType (config (sampleContext (sampleConfig Vue Typescript ''vite'' ''none'') ''.ts''
       (Some emptyEditor) (Some emptyEditor))) \<noteq> Some React
   \<and> generate specEditors (sampleContext (sampleConfig Vue Typescript ''vite'' ''none'') ''.ts''
       (Some emptyEditor) (Some emptyEditor)) =
     Thrown (ValidationError (InvalidProjectType (Some Vue)))
       (sampleContext (sampleConfig Vue Typescript ''vite'' ''none'') ''.ts''
       (Some emptyEditor) (Some emptyEditor))"
proof -
  let ?c = "sampleContext (sampleConfig Vue Typescript ''vite'' ''none'') ''.ts''
       (Some emptyEditor) (Some emptyEditor) :: (Editor, Editor) ProjectContext"
  have h: "projectType (config ?c) \<noteq> Some React"
    by (simp add: sampleContext_def sampleConfig_def)
  have v: "projectType (config ?c) = Some Vue"
    by (simp add: sampleContext_def sampleConfig_def)
  from generate_rejects_other_project_type [OF h, of specEditors] h show ?thesis
    unfolding v by simp
qed

text \<open>
  Claim C3. On a fragment store whose import set has no duplicates (every store built by
  \<^verbatim>\<open>addImport\<close> from the empty one is such, by \<open>addImport_distinct\<close>), calling
  \<^verbatim>\<open>addImport\<close> \<open>N\<close> times with the same target and the same string \<open>s\<close>, for any
  \<open>N \<ge> 1\<close> and so for any \<open>N > 1\<close>, leaves exactly one occurrence of \<open>s\<close> in the
  ordered import set; the result is the one of a single call, and a further call changes
  nothing (the second and later calls are no-ops). When neither \<open>s\<close> nor an import
  already stored contains a line feed, the rendered imports block has exactly one line
  equal to \<open>s\<close>.
\<close>

theorem addImport_same_statement_once:
  assumes "distinct (importSet (ed key))" and "0 < N"
  shows "count_list (importSet ((addImport key s ^^ N) ed key)) s = 1
       \<and> (addImport key s ^^ N) ed = addImport key s ed
       \<and> addImport key s ((addImport key s ^^ N) ed) = (addImport key s ^^ N) ed
       \<and> ((\<forall>x \<in> set (s # importSet (ed key)). CHR 0x0A \<notin> set x) \<longrightarrow>
            count_list (splitLines [] (renderImportsBlock ((addImport key s ^^ N) ed) key)) s = 1)"
proof -
  let ?ed = "addImport key s ed"
  have rep: "(addImport key s ^^ N) ed = ?ed"
    using assms(2) by (rule addImport_repeated)
  have once: "count_list (importSet (?ed key)) s = 1"
    using addImport_distinct [where ed = ed and k = key, OF assms(1)] addImport_member
    by (rule distinct_count_once)
  have lines: "splitLines [] (renderImportsBlock ?ed key) = importSet (?ed key)"
    if "\<forall>x \<in> set (s # importSet (ed key)). CHR 0x0A \<notin> set x"
    unfolding renderImportsBlock_def
    using that by (intro splitLines_block) (auto simp: addImport_def)
  show ?thesis
    unfolding rep using once lines by (simp add: addImport_twice)
qed

text \<open>
  Claim C3, for three calls with \<^verbatim>\<open>import x\<close> on the target \<^verbatim>\<open>main\<close> of the empty
  editor.
\<close>

theorem addImport_same_statement_once_witness:
  "distinct (importSet (emptyEditor ''main'')) \<and> (0::nat) < 3
   \<and> count_list (importSet ((addImport ''main'' ''import x'' ^^ 3) emptyEditor ''main'')) ''import x'' = 1
   \<and> count_list (splitLines [] (renderImportsBlock ((addImport ''main'' ''import x'' ^^ 3) emptyEditor) ''main'')) ''import x'' = 1"
proof -
  have h1: "distinct (importSet (emptyEditor ''main''))"
    by (simp add: emptyEditor_def)
  have h2: "(0::nat) < 3" by simp
  have h3: "\<forall>x \<in> set (''import x'' # importSet (emptyEditor ''main'')). CHR 0x0A \<notin> set x"
    by (simp add: emptyEditor_def)
  note t = addImport_same_statement_once [where ed = emptyEditor and key = "''main''" and N = 3 and s = "''import x''", OF h1 h2]
  from t have a: "count_list (importSet ((addImport ''main'' ''import x'' ^^ 3) emptyEditor ''main'')) ''import x'' = 1"
    by (rule conjunct1)
  from t h3 have b: "count_list (splitLines [] (renderImportsBlock
      ((addImport ''main'' ''import x'' ^^ 3) emptyEditor) ''main'')) ''import x'' = 1"
    by blast
  from h1 h2 a b show ?thesis by blast
qed




text \<open>
  Claim C5 says that the counter component is under \<^verbatim>\<open>src/components/counter.tsx\<close>
  (typescript) or \<^verbatim>\<open>src/components/counter.jsx\<close> (javascript), with a single dot. The
  code does otherwise: the path is built as \<^verbatim>\<open>src/components/counter.\<close> followed by the
  file extension and \<^verbatim>\<open>x\<close>, and the file extension starts with a dot already (the paths
  of app and main are built without the extra dot). So the counter component is written
  under \<^verbatim>\<open>src/components/counter..tsx\<close> or \<^verbatim>\<open>src/components/counter..jsx\<close>, and the
  generator leaves the map as it was at the two paths with a single dot.
\<close>

theorem counter_path_has_two_dots:
  assumes react: "projectType (config ctx) = Some React"
    and lang: "language (config ctx) = Some lang"
    and ext: "fileExtension ctx = getFileExtension lang"
    and ready: "editorsReady ctx"
  shows "\<exists>ctx'. generate m ctx = Returned ctx'
     \<and> files ctx' (if lang = Typescript then ''src/components/counter..tsx''
                    else ''src/components/counter..jsx'') = Some generateCounterFile
     \<and> files ctx' ''src/components/counter.tsx'' = files ctx ''src/components/counter.tsx''
     \<and> files ctx' ''src/components/counter.jsx'' = files ctx ''src/components/counter.jsx''"
proof -
  let ?ctx' = "finalContext (generate m ctx)"
  have ret: "generate m ctx = Returned ?ctx'"
    using generate_returns [OF react ready] by (simp add: returned_iff)
  have e: "fileExtension ctx = ''.ts'' \<or> fileExtension ctx = ''.js''"
    using ext by (simp add: getFileExtension_def)
  have counter: "files ?ctx' (if lang = Typescript then ''src/components/counter..tsx''
                    else ''src/components/counter..jsx'') = Some generateCounterFile"
    using generate_files_source(3) [OF react ready, of m] ext
    by (cases lang) (simp_all add: getFileExtension_def)
  have tsx: "files ?ctx' ''src/components/counter.tsx'' = files ctx ''src/components/counter.tsx''"
    using e by (intro generate_files_other [OF react ready]) auto
  have jsx: "files ?ctx' ''src/components/counter.jsx'' = files ctx ''src/components/counter.jsx''"
    using e by (intro generate_files_other [OF react ready]) auto
  from ret counter tsx jsx show ?thesis by blast
qed

text \<open>
  Claim C5, at the sample context for react, typescript and vite: the counter component
  is under the path with two dots and nothing is under the path with one.
\<close>

theorem counter_path_has_two_dots_witness:
  "language (config (sampleContext (sampleConfig React Typescript ''vite'' ''none'') ''.ts''
       (Some emptyEditor) (Some emptyEditor))) = Some Typescript
   \<and> (\<exists>ctx'. generate specEditors (sampleContext (sampleConfig React Typescript ''vite'' ''none'') ''.ts''
       (Some emptyEditor) (Some emptyEditor)) = Returned ctx'
     \<and> files ctx' ''src/components/counter..tsx'' = Some generateCounterFile
     \<and> files ctx' ''src/components/counter.tsx'' = None)"
proof -
  let ?c = "sampleContext (sampleConfig React Typescript ''vite'' ''none'') ''.ts''
       (Some emptyEditor) (Some emptyEditor) :: (Editor, Editor) ProjectContext"
  have h1: "projectType (config ?c) = Some React"
    and h2: "language (config ?c) = Some Typescript"
    and h3: "fileExtension ?c = getFileExtension Typescript"
    and h4: "editorsReady ?c"
    by (simp_all add: sampleContext_def sampleConfig_def getFileExtension_def editorsReady_def)
  have before: "files ?c ''src/components/counter.tsx'' = None"
    by (simp add: sampleContext_def)
  from counter_path_has_two_dots [OF h1 h2 h3 h4, of specEditors] h2 show ?thesis
    unfolding before by auto
qed

text \<open>
  Claim C6. Take a configuration with \<^verbatim>\<open>projectType\<close> react, \<^verbatim>\<open>language\<close> typescript,
  \<^verbatim>\<open>buildTool\<close> vite and \<^verbatim>\<open>cssFramework\<close> unocss, in a context whose file extension is the
  one of the language and whose two editors exist. The generator returns, and it leaves
  the key \<^verbatim>\<open>uno.config.ts\<close> in the file map, \<^verbatim>\<open>devDependencies.unocss\<close> at
  \<^verbatim>\<open>^66.3.3\<close>, and, run with the editors of the spec, the exact string
  \<^verbatim>\<open>import 'virtual:uno.css'\<close> in the import set of the target \<^verbatim>\<open>main\<close> of the main-entry
  editor.
\<close>

theorem react_typescript_vite_unocss:
  assumes "projectType (config ctx) = Some React"
      and "language (config ctx) = Some Typescript"
      and "buildTool (config ctx) = Some ''vite''"
      and "cssFramework (config ctx) = Some ''unocss''"
      and "fileExtension ctx = getFileExtension Typescript"
      and "viteConfigEditor ctx = Some ve" and "mainEditor ctx = Some me"
  shows "\<exists>ctx' d e. generate specEditors ctx = Returned ctx'
      \<and> ''uno.config.ts'' \<in> dom (files ctx')
      \<and> devDependencies (packageJson ctx') = Some d \<and> d ''unocss'' = Some ''^66.3.3''
      \<and> mainEditor ctx' = Some e
      \<and> ''import 'virtual:uno.css'' @ sq \<in> set (importSet (e ''main''))"
  using assms
  by (simp add: generate_def Let_def step_defs feature_defs getFileExtension_def editor_simps)

text \<open>
  Claim C6, at the sample context for react, typescript, vite and unocss with two empty
  editors.
\<close>

theorem react_typescript_vite_unocss_witness:
  "cssFramework (config (sampleContext (sampleConfig React Typescript ''vite'' ''unocss'') ''.ts''
       (Some emptyEditor) (Some emptyEditor))) = Some ''unocss''
   \<and> (\<exists>ctx' d e. generate specEditors (sampleContext (sampleConfig React Typescript ''vite'' ''unocss'') ''.ts''
       (Some emptyEditor) (Some emptyEditor)) = Returned ctx'
      \<and> ''uno.config.ts'' \<in> dom (files ctx')
      \<and> devDependencies (packageJson ctx') = Some d \<and> d ''unocss'' = Some ''^66.3.3''
      \<and> mainEditor ctx' = Some e
      \<and> ''import 'virtual:uno.css'' @ sq \<in> set (importSet (e ''main'')))"
proof -
  let ?c = "sampleContext (sampleConfig React Typescript ''vite'' ''unocss'') ''.ts''
       (Some emptyEditor) (Some emptyEditor) :: (Editor, Editor) ProjectContext"
  have h1: "projectType (config ?c) = Some React"
    and h2: "language (config ?c) = Some Typescript"
    and h3: "buildTool (config ?c) = Some ''vite''"
    and h4: "cssFramework (config ?c) = Some ''unocss''"
    and h5: "fileExtension ?c = getFileExtension Typescript"
    and h6: "viteConfigEditor ?c = Some emptyEditor"
    and h7: "mainEditor ?c = Some emptyEditor"
    by (simp_all add: sampleContext_def sampleConfig_def getFileExtension_def)
  from react_typescript_vite_unocss [OF h1 h2 h3 h4 h5 h6 h7] h4 show ?thesis
    by (rule_tac conjI)
qed

text \<open>
  Claim C7. For a react configuration whose \<^verbatim>\<open>targetDir\<close> is undefined or the empty
  string, in a context whose editors are ready, the generator returns with
  \<^verbatim>\<open>packageJson.name\<close> equal to \<^verbatim>\<open>hana-project\<close> and with a \<^verbatim>\<open>README.md\<close> whose first line
  is the heading \<^verbatim>\<open># hana-project\<close>.
\<close>

theorem default_project_name:
  assumes "projectType (config ctx) = Some React"
      and "targetDir (config ctx) = None \<or> targetDir (config ctx) = Some []"
      and "editorsReady ctx"
  shows "\<exists>ctx' readme. generate m ctx = Returned ctx'
       \<and> name (packageJson ctx') = ''hana-project''
       \<and> files ctx' ''README.md'' = Some readme
       \<and> prefix ''# hana-project\<newline>'' readme"
proof -
  let ?ctx' = "finalContext (generate m ctx)"
  have d: "orElse (targetDir (config ctx)) ''hana-project'' = ''hana-project''"
    using assms(2) by (auto simp: orElse_def)
  have "generate m ctx = Returned ?ctx'"
    using generate_returns [OF assms(1,3)] by (simp add: returned_iff)
  moreover have "name (packageJson ?ctx') = ''hana-project''"
    using generate_name [OF assms(1,3)] d by simp
  moreover have "files ?ctx' ''README.md'' =
      Some (generateReadmeTemplate ''react'' ''hana-project'' (Some ''A React project''))"
    using generate_readme [OF assms(1,3)] d by simp
  moreover have "prefix ''# hana-project\<newline>''
      (generateReadmeTemplate ''react'' ''hana-project'' (Some ''A React project''))"
    by (simp add: generateReadmeTemplate_def)
  ultimately show ?thesis by blast
qed

text \<open>
  Claim C7, at a sample context whose \<^verbatim>\<open>targetDir\<close> is undefined.
\<close>

theorem default_project_name_witness:
  "targetDir (config (sampleContext (sampleConfig React Javascript ''vite'' ''none'') ''.js''
       (Some emptyEditor) (Some emptyEditor))) = None
   \<and> (\<exists>ctx' readme. generate specEditors (sampleContext (sampleConfig React Javascript ''vite'' ''none'') ''.js''
       (Some emptyEditor) (Some emptyEditor)) = Returned ctx'
       \<and> name (packageJson ctx') = ''hana-project''
       \<and> files ctx' ''README.md'' = Some readme
       \<and> prefix ''# hana-project\<newline>'' readme)"
proof -
  let ?c = "sampleContext (sampleConfig React Javascript ''vite'' ''none'') ''.js''
       (Some emptyEditor) (Some emptyEditor) :: (Editor, Editor) ProjectContext"
  have h1: "projectType (config ?c) = Some React"
    and h2: "targetDir (config ?c) = None \<or> targetDir (config ?c) = Some []"
    and h3: "editorsReady ?c"
    and h4: "targetDir (config ?c) = None"
    by (simp_all add: sampleContext_def sampleConfig_def editorsReady_def)
  from default_project_name [OF h1 h2 h3, of specEditors] h4 show ?thesis
    by simp
qed

text \<open>
  Claim C8. Two runs of the generator on contexts that agree on the configuration, the
  file extension, the file map, the manifest and on which editors exist end with the same
  file map and the same manifest, and throw the same error or none. Two identically
  initialised contexts are the special case \<open>c1 = c2\<close>, \<open>m1 = m2\<close>; the theorem also
  says that the result does not depend on \<open>projectDir\<close>, on \<open>cwd\<close>, or on the state or
  the implementation of the editors. (The template functions are functions of their
  arguments in this embedding, as they are in the source: they read nothing else.)
\<close>

theorem generate_deterministic:
  assumes "config c1 = config c2" and "fileExtension c1 = fileExtension c2"
    and "files c1 = files c2" and "packageJson c1 = packageJson c2"
    and "(viteConfigEditor c1 = None) = (viteConfigEditor c2 = None)"
    and "(mainEditor c1 = None) = (mainEditor c2 = None)"
  shows "files (finalContext (generate m1 c1)) = files (finalContext (generate m2 c2))
       \<and> packageJson (finalContext (generate m1 c1)) = packageJson (finalContext (generate m2 c2))
       \<and> thrownError (generate m1 c1) = thrownError (generate m2 c2)"
proof -
  from assms have "sameInputs c1 c2"
    by (simp add: sameInputs_def)
  then have "sameOutcome (generate m1 c1) (generate m2 c2)"
    by (rule generate_same)
  then show ?thesis
    by (simp add: sameOutcome_def sameInputs_def)
qed

text \<open>
  Claim C8, for two sample contexts that differ in \<open>projectDir\<close>, in \<open>cwd\<close> and in the
  state of the build-tool configuration editor.
\<close>

theorem generate_deterministic_witness:
  "config (sampleContext (sampleConfig React Typescript ''vite'' ''unocss'') ''.ts''
       (Some emptyEditor) (Some emptyEditor)) =
   config ((sampleContext (sampleConfig React Typescript ''vite'' ''unocss'') ''.ts''
       (Some (addImport ''viteConfig'' ''import a'' emptyEditor)) (Some emptyEditor))
       \<lparr>projectDir := ''/other/app'', cwd := ''/other''\<rparr>)
   \<and> files (finalContext (generate specEditors
         (sampleContext (sampleConfig React Typescript ''vite'' ''unocss'') ''.ts''
           (Some emptyEditor) (Some emptyEditor)))) =
     files (finalContext (generate specEditors
         ((sampleContext (sampleConfig React Typescript ''vite'' ''unocss'') ''.ts''
           (Some (addImport ''viteConfig'' ''import a'' emptyEditor)) (Some emptyEditor))
           \<lparr>projectDir := ''/other/app'', cwd := ''/other''\<rparr>)))
   \<and> packageJson (finalContext (generate specEditors
         (sampleContext (sampleConfig React Typescript ''vite'' ''unocss'') ''.ts''
           (Some emptyEditor) (Some emptyEditor)))) =
     packageJson (finalContext (generate specEditors
         ((sampleContext (sampleConfig React Typescript ''vite'' ''unocss'') ''.ts''
           (Some (addImport ''viteConfig'' ''import a'' emptyEditor)) (Some emptyEditor))
           \<lparr>projectDir := ''/other/app'', cwd := ''/other''\<rparr>)))"
proof -
  let ?c1 = "sampleContext (sampleConfig React Typescript ''vite'' ''unocss'') ''.ts''
       (Some emptyEditor) (Some emptyEditor) :: (Editor, Editor) ProjectContext"
  let ?c2 = "(sampleContext (sampleConfig React Typescript ''vite'' ''unocss'') ''.ts''
       (Some (addImport ''viteConfig'' ''import a'' emptyEditor)) (Some emptyEditor))
       \<lparr>projectDir := ''/other/app'', cwd := ''/other''\<rparr> :: (Editor, Editor) ProjectContext"
  have h1: "config ?c1 = config ?c2" and h2: "fileExtension ?c1 = fileExtension ?c2"
    and h3: "files ?c1 = files ?c2" and h4: "packageJson ?c1 = packageJson ?c2"
    and h5: "(viteConfigEditor ?c1 = None) = (viteConfigEditor ?c2 = None)"
    and h6: "(mainEditor ?c1 = None) = (mainEditor ?c2 = None)"
    by (simp_all add: sampleContext_def)
  from generate_deterministic [OF h1 h2 h3 h4 h5 h6, of specEditors specEditors] h1 show ?thesis
    by blast
qed

text \<open>
  Claim C9. For a react configuration with \<^verbatim>\<open>cssFramework\<close> tailwindcss whose
  \<^verbatim>\<open>buildTool\<close> is not vite, the generator returns with
  \<^verbatim>\<open>devDependencies.tailwindcss\<close> at \<^verbatim>\<open>^4.1.11\<close>; it does not set
  \<^verbatim>\<open>@tailwindcss/vite\<close> and does not create \<^verbatim>\<open>src/styles/global.css\<close> (both lookups are
  what they were before the call); and it calls no editor method: whatever the methods
  do, and whether the editors exist or not, both editors are as they were.
\<close>

theorem tailwind_without_vite:
  assumes "projectType (config ctx) = Some React"
      and "cssFramework (config ctx) = Some ''tailwindcss''"
      and "buildTool (config ctx) \<noteq> Some ''vite''"
  shows "\<exists>ctx'. generate m ctx = Returned ctx'
       \<and> orEmpty (devDependencies (packageJson ctx')) ''tailwindcss'' = Some ''^4.1.11''
       \<and> orEmpty (devDependencies (packageJson ctx')) ''@tailwindcss/vite'' =
           orEmpty (devDependencies (packageJson ctx)) ''@tailwindcss/vite''
       \<and> files ctx' ''src/styles/global.css'' = files ctx ''src/styles/global.css''
       \<and> viteConfigEditor ctx' = viteConfigEditor ctx
       \<and> mainEditor ctx' = mainEditor ctx"
  using assms
  by (simp add: generate_def Let_def step_defs generateCssFramework_def generateCssPreprocessor_def truthy_def orEmpty_def)

text \<open>
  Claim C9, at a sample context whose \<^verbatim>\<open>buildTool\<close> is webpack: after the run
  \<^verbatim>\<open>@tailwindcss/vite\<close> and \<^verbatim>\<open>src/styles/global.css\<close> are absent and both editors are still
  empty.
\<close>

theorem tailwind_without_vite_witness:
  "buildTool (config (sampleContext (sampleConfig React Typescript ''webpack'' ''tailwindcss'') ''.ts''
       (Some emptyEditor) (Some emptyEditor))) \<noteq> Some ''vite''
   \<and> (\<exists>ctx'. generate specEditors (sampleContext (sampleConfig React Typescript ''webpack'' ''tailwindcss'') ''.ts''
       (Some emptyEditor) (Some emptyEditor)) = Returned ctx'
       \<and> orEmpty (devDependencies (packageJson ctx')) ''tailwindcss'' = Some ''^4.1.11''
       \<and> orEmpty (devDependencies (packageJson ctx')) ''@tailwindcss/vite'' = None
       \<and> files ctx' ''src/styles/global.css'' = None
       \<and> viteConfigEditor ctx' = Some emptyEditor
       \<and> mainEditor ctx' = Some emptyEditor)"
proof -
  let ?c = "sampleContext (sampleConfig React Typescript ''webpack'' ''tailwindcss'') ''.ts''
       (Some emptyEditor) (Some emptyEditor) :: (Editor, Editor) ProjectContext"
  have h1: "projectType (config ?c) = Some React"
    and h2: "cssFramework (config ?c) = Some ''tailwindcss''"
    and h3: "buildTool (config ?c) \<noteq> Some ''vite''"
    by (simp_all add: sampleContext_def sampleConfig_def)
  have before: "orEmpty (devDependencies (packageJson ?c)) ''@tailwindcss/vite'' = None"
    "files ?c ''src/styles/global.css'' = None"
    "viteConfigEditor ?c = Some emptyEditor" "mainEditor ?c = Some emptyEditor"
    by (simp_all add: sampleContext_def samplePackageJson_def orEmpty_def)
  from tailwind_without_vite [OF h1 h2 h3, of specEditors] h3 show ?thesis
    unfolding before by simp
qed

text \<open>
  Claim C10 says that for every variables map the value of a key replaces every
  occurrence of its placeholder. The code does otherwise when the value holds a
  replacement pattern of \<^verbatim>\<open>String.prototype.replace\<close>: with the variables
  \<^verbatim>\<open>{name: '$&'}\<close> the template \<^verbatim>\<open>{{name}}\<close> renders to \<^verbatim>\<open>{{name}}\<close>, not to \<^verbatim>\<open>$&\<close>,
  since \<^verbatim>\<open>$&\<close> stands for the matched text. (With no variables the template is returned
  as it is: \<open>renderTemplate_no_variables\<close>.)
\<close>

theorem renderTemplate_dollar_pattern:
  "renderTemplate ''{{name}}'' [(''name'', ''$&'')] = Rendered ''{{name}}''"
  by (simp add: renderTemplate_def plainKey_def syntaxCharacter_def isWhiteSpace_def
      matchPlaceholder_def)

end
